theory Spec2Isabelle
  imports Main
begin

section \<open>Country coverage (saleor/graphql/shop/utils.py)\<close>

text \<open>
  A country as the django-countries field yields it: the resolvers and the coverage
  utility read its \<open>code\<close> and its \<open>name\<close> only.
\<close>

record country =
  code :: string
  name :: string

text \<open>
  A shipping zone (\<open>models.ShippingZone\<close>), reduced to the attributes the code under
  study reads: its identifier and its country list.
\<close>

datatype ident = IntId int | StrId string

record shipping_zone =
  zone_id :: ident
  countries :: "country list"

text \<open>
  \<open>get_countries_codes_list\<close>. The two things the function reads from its
  environment are parameters: \<open>countries_table\<close> is the iteration of
  \<open>django_countries.countries\<close> (pairs of code and name, of which the source takes
  component 0), \<open>zones\<close> is what \<open>ShippingZone.objects.iterator()\<close> streams.
  The \<open>for\<close> loop with \<open>set.update\<close> is a fold over the zones. The source tests
  \<open>if in_shipping_zones\<close>, then \<open>if not in_shipping_zones\<close>, and falls through to
  the final \<open>return all_countries_codes\<close>; the three branches are kept.
\<close>

definition get_countries_codes_list ::
  "(string \<times> string) list \<Rightarrow> shipping_zone list \<Rightarrow> bool option \<Rightarrow> string set" where
  "get_countries_codes_list countries_table zones in_shipping_zones =
     (let all_countries_codes = set (map fst countries_table) in
      case in_shipping_zones of
        None \<Rightarrow> all_countries_codes
      | Some flag \<Rightarrow>
          (let covered_countries_codes =
                 fold (\<lambda>zone acc. acc \<union> set (map code (countries zone))) zones {}
           in if flag then covered_countries_codes
              else if \<not> flag then all_countries_codes - covered_countries_codes
              else all_countries_codes))"

section \<open>Resolver results: values and loader promises\<close>

text \<open>
  The dataloader classes named in saleor/graphql/shipping/types.py whose \<open>load\<close> the
  shipping-method resolvers call.
\<close>

datatype loader_class =
    ShippingMethodChannelListingByShippingMethodIdAndChannelSlugLoader
  | PostalCodeRulesByShippingMethodIdLoader
  | ShippingMethodChannelListingByShippingMethodIdLoader

text \<open>
  The two exceptions that occur on the modelled paths: the \<open>AttributeError\<close> Python
  raises when an attribute of \<open>None\<close> is read, and the denial raised by the
  permission guard.
\<close>

datatype error = AttributeError | PermissionDenied

text \<open>
  \<open>Loader(info.context).load(key)\<close> gives a promise: the loader, the key handed to it,
  and the continuation that \<open>.then\<close> has chained so far. A continuation that raises
  rejects the promise, which is the \<open>Inl\<close> result. A resolver hands the engine either
  a plain value (\<open>Return\<close>, where Python's \<open>None\<close> is the value \<open>None\<close> of an option
  type) or such a promise (\<open>Deferred\<close>).
\<close>

datatype ('k, 'r, 'a) promise = Promise loader_class 'k "'r \<Rightarrow> error + 'a"

datatype ('k, 'r, 'a) resolved = Return 'a | Deferred "('k, 'r, 'a) promise"

definition load :: "loader_class \<Rightarrow> 'k \<Rightarrow> ('k, 'r, 'r) promise" where
  "load loader key = Promise loader key Inr"

fun then_promise ::
  "('k, 'r, 'a) promise \<Rightarrow> ('a \<Rightarrow> error + 'b) \<Rightarrow> ('k, 'r, 'b) promise" where
  "then_promise (Promise loader key k) f =
     Promise loader key (\<lambda>r. case k r of Inl e \<Rightarrow> Inl e | Inr a \<Rightarrow> f a)"

text \<open>
  Two observations of a resolver result: the loader fetches it has issued, and the value
  it delivers once the data store (\<open>fetch\<close>, the reply of each loader to each key) has
  answered.
\<close>

fun loader_calls :: "('k, 'r, 'a) resolved \<Rightarrow> (loader_class \<times> 'k) list" where
  "loader_calls (Return v) = []"
| "loader_calls (Deferred (Promise loader key k)) = [(loader, key)]"

fun settle :: "(loader_class \<Rightarrow> 'k \<Rightarrow> 'r) \<Rightarrow> ('k, 'r, 'a) resolved \<Rightarrow> error + 'a" where
  "settle fetch (Return v) = Inr v"
| "settle fetch (Deferred (Promise loader key k)) = k (fetch loader key)"

section \<open>Shipping methods in their channel context (saleor/graphql/shipping/types.py)\<close>

text \<open>
  The node a \<open>ShippingMethod\<close> resolver receives is a \<open>models.ShippingMethod\<close> or a
  \<open>ShippingMethodData\<close>; the resolvers probe it with \<open>getattr(node, attr, default)\<close>.
  The record holds what they read. For the three price fields \<open>None\<close> stands for both
  "no such attribute" and "attribute is None", which \<open>getattr(node, attr, None)\<close> does
  not tell apart. For \<open>is_external\<close>, \<open>None\<close> is the missing attribute. For
  \<open>excluded_products\<close>, \<open>None\<close> is Python's \<open>None\<close> and \<open>Some rows\<close> is a related
  manager over the rows \<open>rows\<close>: a manager object defines neither \<open>__bool__\<close> nor
  \<open>__len__\<close>, so it is truthy whatever it holds. Money (\<open>'m\<close>) and products (\<open>'p\<close>)
  are never inspected by the resolvers.
\<close>

record ('m, 'p) shipping_method =
  node_id :: ident
  price :: "'m option"
  maximum_order_price :: "'m option"
  minimum_order_price :: "'m option"
  is_external :: "bool option"
  excluded_products :: "'p list option"

text \<open>\<open>models.ShippingMethodChannelListing\<close>, the row the (id, slug) loader yields.\<close>

record 'm shipping_method_channel_listing =
  listing_price :: "'m option"
  listing_maximum_order_price :: "'m option"
  listing_minimum_order_price :: "'m option"

text \<open>\<open>ChannelContext\<close>: a node and an optional channel slug.\<close>

record 'n channel_context =
  node :: 'n
  channel_slug :: "string option"

text \<open>\<open>getattr(root.node, "is_external", False)\<close>.\<close>

definition getattr_is_external :: "('m, 'p, 'x) shipping_method_scheme \<Rightarrow> bool" where
  "getattr_is_external n = (case is_external n of None \<Rightarrow> False | Some flag \<Rightarrow> flag)"

text \<open>Python truthiness of an optional string: \<open>None\<close> and the empty string are falsy.\<close>

definition truthy :: "string option \<Rightarrow> bool" where
  "truthy slug = (case slug of None \<Rightarrow> False | Some s \<Rightarrow> s \<noteq> [])"

text \<open>
  \<open>ShippingMethod.resolve_id\<close>. \<open>graphene.Node.to_global_id\<close> belongs to the graphene
  library and is a parameter.
\<close>

definition resolve_id ::
  "(string \<Rightarrow> ident \<Rightarrow> string) \<Rightarrow> ('m, 'p) shipping_method channel_context
     \<Rightarrow> ('k, 'r, ident) resolved" where
  "resolve_id to_global_id root =
     (if getattr_is_external (node root) then Return (node_id (node root))
      else Return (StrId (to_global_id ''ShippingMethod'' (node_id (node root)))))"

text \<open>
  \<open>ShippingMethod.resolve_price\<close>: the continuation is
  \<open>lambda channel_listing: channel_listing.price if channel_listing else None\<close>.
\<close>

definition resolve_price ::
  "('m, 'p) shipping_method channel_context
     \<Rightarrow> (ident \<times> string option, 'm shipping_method_channel_listing option, 'm option) resolved"
  where
  "resolve_price root =
     (case price (node root) of
        Some p \<Rightarrow> Return (Some p)
      | None \<Rightarrow>
          if \<not> truthy (channel_slug root) then Return None
          else if getattr_is_external (node root) then Return None
          else Deferred
            (then_promise
               (load ShippingMethodChannelListingByShippingMethodIdAndChannelSlugLoader
                  (node_id (node root), channel_slug root))
               (\<lambda>channel_listing.
                  case channel_listing of
                    Some listing \<Rightarrow> Inr (listing_price listing)
                  | None \<Rightarrow> Inr None)))"

text \<open>
  \<open>ShippingMethod.resolve_maximum_order_price\<close>: the continuation is
  \<open>lambda channel_listing: channel_listing.maximum_order_price\<close>, with no test of
  \<open>channel_listing\<close>; on \<open>None\<close> the attribute read raises.
\<close>

definition resolve_maximum_order_price ::
  "('m, 'p) shipping_method channel_context
     \<Rightarrow> (ident \<times> string option, 'm shipping_method_channel_listing option, 'm option) resolved"
  where
  "resolve_maximum_order_price root =
     (case maximum_order_price (node root) of
        Some p \<Rightarrow> Return (Some p)
      | None \<Rightarrow>
          if \<not> truthy (channel_slug root) then Return None
          else if getattr_is_external (node root) then Return None
          else Deferred
            (then_promise
               (load ShippingMethodChannelListingByShippingMethodIdAndChannelSlugLoader
                  (node_id (node root), channel_slug root))
               (\<lambda>channel_listing.
                  case channel_listing of
                    Some listing \<Rightarrow> Inr (listing_maximum_order_price listing)
                  | None \<Rightarrow> Inl AttributeError)))"

text \<open>
  \<open>ShippingMethod.resolve_minimum_order_price\<close>: the continuation is
  \<open>lambda channel_listing: channel_listing.minimum_order_price\<close>, again unguarded.
\<close>

definition resolve_minimum_order_price ::
  "('m, 'p) shipping_method channel_context
     \<Rightarrow> (ident \<times> string option, 'm shipping_method_channel_listing option, 'm option) resolved"
  where
  "resolve_minimum_order_price root =
     (case minimum_order_price (node root) of
        Some p \<Rightarrow> Return (Some p)
      | None \<Rightarrow>
          if \<not> truthy (channel_slug root) then Return None
          else if getattr_is_external (node root) then Return None
          else Deferred
            (then_promise
               (load ShippingMethodChannelListingByShippingMethodIdAndChannelSlugLoader
                  (node_id (node root), channel_slug root))
               (\<lambda>channel_listing.
                  case channel_listing of
                    Some listing \<Rightarrow> Inr (listing_minimum_order_price listing)
                  | None \<Rightarrow> Inl AttributeError)))"

text \<open>
  \<open>ShippingMethod.resolve_postal_code_rules\<close>. The promise of the loader is returned
  as it is; \<open>Some\<close> only places the loaded list in the optional result type.
\<close>

definition resolve_postal_code_rules ::
  "('m, 'p) shipping_method channel_context \<Rightarrow> (ident, 'rule list, 'rule list option) resolved"
  where
  "resolve_postal_code_rules root =
     (if getattr_is_external (node root) then Return None
      else Deferred
        (then_promise (load PostalCodeRulesByShippingMethodIdLoader (node_id (node root)))
           (\<lambda>rules. Inr (Some rules))))"

text \<open>
  The request: of \<open>info.context\<close> the modelled code consults only the capabilities of
  the requestor.
\<close>

datatype permission = MANAGE_SHIPPING

record request_info =
  capabilities :: "permission list"

definition has_capability :: "request_info \<Rightarrow> permission \<Rightarrow> bool" where
  "has_capability info perm = (perm \<in> set (capabilities info))"

text \<open>
  Modelled from the spec: the \<open>permission_required\<close> decorator of
  saleor/graphql/decorators.py, which is not among the sources. The specification
  (sections 4.3 and 6) describes it as a guard evaluated before the loader call that
  asks \<open>has_capability(context, capability)\<close> and gives an explicit access-denied
  outcome when the caller lacks the capability.
\<close>

definition permission_required :: "permission \<Rightarrow> request_info \<Rightarrow> 'a \<Rightarrow> error + 'a" where
  "permission_required perm info body =
     (if has_capability info perm then Inr body else Inl PermissionDenied)"

text \<open>\<open>ShippingMethod.resolve_channel_listings\<close>, under its permission guard.\<close>

definition resolve_channel_listings ::
  "('m, 'p) shipping_method channel_context \<Rightarrow> request_info
     \<Rightarrow> error + (ident, 'l list, 'l list option) resolved" where
  "resolve_channel_listings root info =
     permission_required MANAGE_SHIPPING info
       (if getattr_is_external (node root) then Return None
        else Deferred
          (then_promise
             (load ShippingMethodChannelListingByShippingMethodIdLoader (node_id (node root)))
             (\<lambda>listings. Inr (Some listings))))"

text \<open>
  What \<open>resolve_excluded_products\<close> hands to \<open>create_connection_slice\<close>: a plain
  queryset (\<open>Product.objects.none()\<close> is \<open>QuerySet []\<close>) or a \<open>ChannelQsContext\<close> with
  its queryset and channel slug. \<open>rows_of\<close> reads the rows either one ranges over.
\<close>

datatype 'p connection_source = QuerySet "'p list" | ChannelQsContext "'p list" "string option"

fun rows_of :: "'p connection_source \<Rightarrow> 'p list" where
  "rows_of (QuerySet rows) = rows"
| "rows_of (ChannelQsContext rows slug) = rows"

text \<open>
  \<open>ShippingMethod.resolve_excluded_products\<close>, under its permission guard.
  \<open>create_connection_slice\<close> (saleor/graphql/core/connection.py, not among the sources;
  the connection type argument is fixed) is a parameter.
\<close>

definition resolve_excluded_products ::
  "('p connection_source \<Rightarrow> request_info \<Rightarrow> 'kw \<Rightarrow> 'conn)
     \<Rightarrow> ('m, 'p) shipping_method channel_context \<Rightarrow> request_info \<Rightarrow> 'kw
     \<Rightarrow> error + ('k, 'r, 'conn) resolved" where
  "resolve_excluded_products create_connection_slice root info kwargs =
     permission_required MANAGE_SHIPPING info
       (let qs = (case excluded_products (node root) of
                    None \<Rightarrow> QuerySet []
                  | Some rows \<Rightarrow> ChannelQsContext rows None)
        in Return (create_connection_slice qs info kwargs))"

section \<open>Shipping zones in their channel context\<close>

text \<open>\<open>CountryDisplay(code=..., country=...)\<close>.\<close>

record country_display =
  display_code :: string
  display_country :: string

text \<open>\<open>ShippingZone.resolve_countries\<close>: the list comprehension is a map.\<close>

definition resolve_countries ::
  "shipping_zone channel_context \<Rightarrow> ('k, 'r, country_display list) resolved" where
  "resolve_countries root =
     Return (map (\<lambda>country. \<lparr>display_code = code country, display_country = name country\<rparr>)
               (countries (node root)))"

section \<open>Concrete entities for the examples\<close>

text \<open>
  A country table and zones, shipping methods (money as amount and currency, the
  excluded products as numbers), two requestors and a stand-in for the global-id codec.
  They are abbreviations: every example below is a statement about the literal values.
\<close>

abbreviation poland_only :: "(string \<times> string) list" where
  "poland_only \<equiv> [(''PL'', ''Poland'')]"

abbreviation two_countries :: "(string \<times> string) list" where
  "two_countries \<equiv> [(''PL'', ''Poland''), (''DE'', ''Germany'')]"

abbreviation stray_zone :: shipping_zone where
  "stray_zone \<equiv> \<lparr>zone_id = IntId 1, countries = [\<lparr>code = ''XX'', name = ''Nowhere''\<rparr>]\<rparr>"

abbreviation polish_zone :: shipping_zone where
  "polish_zone \<equiv> \<lparr>zone_id = IntId 2, countries = [\<lparr>code = ''PL'', name = ''Poland''\<rparr>]\<rparr>"

abbreviation default_slug :: "string option" where
  "default_slug \<equiv> Some ''default''"

abbreviation local_method :: "(int \<times> string, nat) shipping_method" where
  "local_method \<equiv>
     \<lparr>node_id = IntId 5, price = None, maximum_order_price = None,
      minimum_order_price = None, is_external = None, excluded_products = Some []\<rparr>"

abbreviation priced_method :: "(int \<times> string, nat) shipping_method" where
  "priced_method \<equiv>
     \<lparr>node_id = IntId 5, price = Some (10, ''USD''), maximum_order_price = Some (90, ''USD''),
      minimum_order_price = Some (20, ''USD''), is_external = None, excluded_products = None\<rparr>"

abbreviation external_method :: "(int \<times> string, nat) shipping_method" where
  "external_method \<equiv>
     \<lparr>node_id = StrId ''app:7:express'', price = None, maximum_order_price = None,
      minimum_order_price = None, is_external = Some True, excluded_products = None\<rparr>"

abbreviation no_listing ::
  "loader_class \<Rightarrow> ident \<times> string option
     \<Rightarrow> (int \<times> string) shipping_method_channel_listing option" where
  "no_listing \<equiv> (\<lambda>loader key. None)"

abbreviation staff :: request_info where
  "staff \<equiv> \<lparr>capabilities = [MANAGE_SHIPPING]\<rparr>"

abbreviation anonymous :: request_info where
  "anonymous \<equiv> \<lparr>capabilities = []\<rparr>"

abbreviation plain_global_id :: "string \<Rightarrow> ident \<Rightarrow> string" where
  "plain_global_id \<equiv>
     (\<lambda>type_name local_id.
        type_name @ '':'' @ (case local_id of IntId i \<Rightarrow> (if i = 5 then ''5'' else ''?'')
                                              | StrId s \<Rightarrow> s))"

section \<open>Properties of the coverage utility\<close>

lemma fold_update_codes:
  "fold (\<lambda>zone acc. acc \<union> set (map code (countries zone))) zones acc0 =
     acc0 \<union> (\<Union>zone \<in> set zones. set (map code (countries zone)))"
  by (induction zones arbitrary: acc0) auto

text \<open>
  C4. \<open>get_countries_codes_list\<close> returns the universe of all known country codes when
  the filter is absent (\<open>None\<close>), the union of the country codes of every shipping zone
  when the filter is true, and the universe minus that union when the filter is false.
\<close>

theorem get_countries_codes_list_cases:
  "get_countries_codes_list countries_table zones None = set (map fst countries_table)
   \<and> get_countries_codes_list countries_table zones (Some True) =
       (\<Union>zone \<in> set zones. set (map code (countries zone)))
   \<and> get_countries_codes_list countries_table zones (Some False) =
       set (map fst countries_table) - (\<Union>zone \<in> set zones. set (map code (countries zone)))"
  unfolding get_countries_codes_list_def fold_update_codes by simp


text \<open>
  C2, against the claim as stated: with the country table \<open>[(PL, Poland)]\<close> and one
  zone whose only country has the code \<open>XX\<close>, the uncovered set is \<open>{PL}\<close> and the
  covered set is \<open>{XX}\<close>; their union is not the set returned for filter = all.
\<close>

theorem coverage_partition_counterexample:
  "get_countries_codes_list poland_only [stray_zone] (Some False)
     \<union> get_countries_codes_list poland_only [stray_zone] (Some True)
   \<noteq> get_countries_codes_list poland_only [stray_zone] None"
  by (simp add: get_countries_codes_list_def)

text \<open>
  C2, amended. For every list of shipping zones and every country table, the set
  returned with filter = uncovered and the set returned with filter = covered are
  disjoint; their union equals the set returned with filter = all whenever every country
  code of every zone occurs in the country table; and with zero zones the covered set is
  empty and the uncovered set equals the universe.
\<close>

theorem coverage_partition:
  "get_countries_codes_list countries_table zones (Some False)
     \<inter> get_countries_codes_list countries_table zones (Some True) = {}
   \<and> ((\<forall>zone \<in> set zones. \<forall>c \<in> set (countries zone).
          code c \<in> set (map fst countries_table))
      \<longrightarrow> get_countries_codes_list countries_table zones (Some False)
            \<union> get_countries_codes_list countries_table zones (Some True)
          = get_countries_codes_list countries_table zones None)
   \<and> get_countries_codes_list countries_table [] (Some True) = {}
   \<and> get_countries_codes_list countries_table [] (Some False)
       = get_countries_codes_list countries_table [] None"
proof -
  let ?all = "set (map fst countries_table)"
  let ?cov = "\<Union>zone \<in> set zones. set (map code (countries zone))"
  have covered: "get_countries_codes_list countries_table zones (Some True) = ?cov"
    and uncovered: "get_countries_codes_list countries_table zones (Some False) = ?all - ?cov"
    and everything: "get_countries_codes_list countries_table zones None = ?all"
    unfolding get_countries_codes_list_def fold_update_codes by simp_all
  have no_zones: "get_countries_codes_list countries_table [] (Some True) = {}"
    "get_countries_codes_list countries_table [] (Some False)
       = get_countries_codes_list countries_table [] None"
    by (simp_all add: get_countries_codes_list_def)
  have disjoint: "(?all - ?cov) \<inter> ?cov = {}"
    by blast
  have union: "(?all - ?cov) \<union> ?cov = ?all"
    if "\<forall>zone \<in> set zones. \<forall>c \<in> set (countries zone). code c \<in> ?all"
    using that by auto
  show ?thesis
    unfolding covered uncovered everything using disjoint union no_zones by blast
qed

theorem coverage_partition_witness:
  "set (map code (countries polish_zone)) \<subseteq> set (map fst two_countries)
   \<and> get_countries_codes_list two_countries [polish_zone] (Some False) = {''DE''}
   \<and> get_countries_codes_list two_countries [polish_zone] (Some True) = {''PL''}
   \<and> get_countries_codes_list two_countries [polish_zone] (Some False)
        \<inter> get_countries_codes_list two_countries [polish_zone] (Some True) = {}
   \<and> get_countries_codes_list two_countries [polish_zone] (Some False)
        \<union> get_countries_codes_list two_countries [polish_zone] (Some True)
      = get_countries_codes_list two_countries [polish_zone] None"
  using coverage_partition [of two_countries "[polish_zone]"]
  by (simp add: get_countries_codes_list_def)

section \<open>Properties of the price resolvers\<close>

text \<open>
  The loader path of each price resolver: one fetch with the key (entity id, channel
  slug), and the value delivered for each possible reply of the loader.
\<close>

lemma resolve_price_fetch:
  assumes "price (node root) = None" "truthy (channel_slug root)"
    "\<not> getattr_is_external (node root)"
  shows "loader_calls (resolve_price root) =
           [(ShippingMethodChannelListingByShippingMethodIdAndChannelSlugLoader,
             (node_id (node root), channel_slug root))]"
    and "settle fetch (resolve_price root) =
           (case fetch ShippingMethodChannelListingByShippingMethodIdAndChannelSlugLoader
                   (node_id (node root), channel_slug root) of
              None \<Rightarrow> Inr None
            | Some listing \<Rightarrow> Inr (listing_price listing))"
  using assms by (simp_all add: resolve_price_def load_def split: option.splits)

lemma resolve_maximum_order_price_fetch:
  assumes "maximum_order_price (node root) = None" "truthy (channel_slug root)"
    "\<not> getattr_is_external (node root)"
  shows "loader_calls (resolve_maximum_order_price root) =
           [(ShippingMethodChannelListingByShippingMethodIdAndChannelSlugLoader,
             (node_id (node root), channel_slug root))]"
    and "settle fetch (resolve_maximum_order_price root) =
           (case fetch ShippingMethodChannelListingByShippingMethodIdAndChannelSlugLoader
                   (node_id (node root), channel_slug root) of
              None \<Rightarrow> Inl AttributeError
            | Some listing \<Rightarrow> Inr (listing_maximum_order_price listing))"
  using assms by (simp_all add: resolve_maximum_order_price_def load_def split: option.splits)

lemma resolve_minimum_order_price_fetch:
  assumes "minimum_order_price (node root) = None" "truthy (channel_slug root)"
    "\<not> getattr_is_external (node root)"
  shows "loader_calls (resolve_minimum_order_price root) =
           [(ShippingMethodChannelListingByShippingMethodIdAndChannelSlugLoader,
             (node_id (node root), channel_slug root))]"
    and "settle fetch (resolve_minimum_order_price root) =
           (case fetch ShippingMethodChannelListingByShippingMethodIdAndChannelSlugLoader
                   (node_id (node root), channel_slug root) of
              None \<Rightarrow> Inl AttributeError
            | Some listing \<Rightarrow> Inr (listing_minimum_order_price listing))"
  using assms by (simp_all add: resolve_minimum_order_price_def load_def split: option.splits)

text \<open>
  C1, at the input where the code departs from it. Each price resolver, on an entity
  with no pre-computed value, a channel qualifier and no external flag, fetches by
  (entity id, channel slug) and projects its sub-field, and should give an absent value
  when no channel-listing record exists. For the local method 5 in channel "default"
  with no listing record, \<open>resolve_price\<close> gives the absent value, while
  \<open>resolve_maximum_order_price\<close> and \<open>resolve_minimum_order_price\<close> issue the same
  fetch and then fail with \<open>AttributeError\<close>.
\<close>

theorem missing_listing_raises:
  "loader_calls (resolve_maximum_order_price \<lparr>node = local_method, channel_slug = default_slug\<rparr>)
     = [(ShippingMethodChannelListingByShippingMethodIdAndChannelSlugLoader,
         (IntId 5, default_slug))]
   \<and> loader_calls (resolve_minimum_order_price \<lparr>node = local_method, channel_slug = default_slug\<rparr>)
     = [(ShippingMethodChannelListingByShippingMethodIdAndChannelSlugLoader,
         (IntId 5, default_slug))]
   \<and> settle no_listing
        (resolve_maximum_order_price \<lparr>node = local_method, channel_slug = default_slug\<rparr>)
     = Inl AttributeError
   \<and> settle no_listing
        (resolve_minimum_order_price \<lparr>node = local_method, channel_slug = default_slug\<rparr>)
     = Inl AttributeError
   \<and> settle no_listing (resolve_price \<lparr>node = local_method, channel_slug = default_slug\<rparr>)
     = Inr None"
  by (simp add: resolve_price_def resolve_maximum_order_price_def
      resolve_minimum_order_price_def getattr_is_external_def truthy_def load_def)

text \<open>The order of the checks, resolver by resolver.\<close>

lemma resolve_price_order:
  "(price (node root) = Some v \<longrightarrow> resolve_price root = Return (Some v))
   \<and> (price (node root) = None \<and> \<not> truthy (channel_slug root)
        \<longrightarrow> resolve_price root = Return None)
   \<and> (price (node root) = None \<and> truthy (channel_slug root) \<and> getattr_is_external (node root)
        \<longrightarrow> resolve_price root = Return None)
   \<and> (loader_calls (resolve_price root) =
         (if price (node root) = None \<and> truthy (channel_slug root)
             \<and> \<not> getattr_is_external (node root)
          then [(ShippingMethodChannelListingByShippingMethodIdAndChannelSlugLoader,
                 (node_id (node root), channel_slug root))]
          else []))"
  by (simp add: resolve_price_def load_def split: option.splits)

lemma resolve_maximum_order_price_order:
  "(maximum_order_price (node root) = Some v
        \<longrightarrow> resolve_maximum_order_price root = Return (Some v))
   \<and> (maximum_order_price (node root) = None \<and> \<not> truthy (channel_slug root)
        \<longrightarrow> resolve_maximum_order_price root = Return None)
   \<and> (maximum_order_price (node root) = None \<and> truthy (channel_slug root)
        \<and> getattr_is_external (node root)
        \<longrightarrow> resolve_maximum_order_price root = Return None)
   \<and> (loader_calls (resolve_maximum_order_price root) =
         (if maximum_order_price (node root) = None \<and> truthy (channel_slug root)
             \<and> \<not> getattr_is_external (node root)
          then [(ShippingMethodChannelListingByShippingMethodIdAndChannelSlugLoader,
                 (node_id (node root), channel_slug root))]
          else []))"
  by (simp add: resolve_maximum_order_price_def load_def split: option.splits)

lemma resolve_minimum_order_price_order:
  "(minimum_order_price (node root) = Some v
        \<longrightarrow> resolve_minimum_order_price root = Return (Some v))
   \<and> (minimum_order_price (node root) = None \<and> \<not> truthy (channel_slug root)
        \<longrightarrow> resolve_minimum_order_price root = Return None)
   \<and> (minimum_order_price (node root) = None \<and> truthy (channel_slug root)
        \<and> getattr_is_external (node root)
        \<longrightarrow> resolve_minimum_order_price root = Return None)
   \<and> (loader_calls (resolve_minimum_order_price root) =
         (if minimum_order_price (node root) = None \<and> truthy (channel_slug root)
             \<and> \<not> getattr_is_external (node root)
          then [(ShippingMethodChannelListingByShippingMethodIdAndChannelSlugLoader,
                 (node_id (node root), channel_slug root))]
          else []))"
  by (simp add: resolve_minimum_order_price_def load_def split: option.splits)

text \<open>
  C3. For each of the three price resolvers the checks come in this order: (1) a
  pre-computed value on the entity is returned directly, with no loader call; (2)
  otherwise, with no channel qualifier, the result is absent; (3) otherwise, for an
  externally sourced entity, the result is absent; (4) only otherwise is a loader fetch
  issued (the list of loader calls is the one fetch in case 4 and empty in every other
  case).
\<close>

theorem price_resolvers_check_order:
  "((price (node root) = Some v \<longrightarrow> resolve_price root = Return (Some v))
   \<and> (price (node root) = None \<and> \<not> truthy (channel_slug root)
        \<longrightarrow> resolve_price root = Return None)
   \<and> (price (node root) = None \<and> truthy (channel_slug root) \<and> getattr_is_external (node root)
        \<longrightarrow> resolve_price root = Return None)
   \<and> (loader_calls (resolve_price root) =
         (if price (node root) = None \<and> truthy (channel_slug root)
             \<and> \<not> getattr_is_external (node root)
          then [(ShippingMethodChannelListingByShippingMethodIdAndChannelSlugLoader,
                 (node_id (node root), channel_slug root))]
          else [])))
 \<and> ((maximum_order_price (node root) = Some v'
        \<longrightarrow> resolve_maximum_order_price root = Return (Some v'))
   \<and> (maximum_order_price (node root) = None \<and> \<not> truthy (channel_slug root)
        \<longrightarrow> resolve_maximum_order_price root = Return None)
   \<and> (maximum_order_price (node root) = None \<and> truthy (channel_slug root)
        \<and> getattr_is_external (node root)
        \<longrightarrow> resolve_maximum_order_price root = Return None)
   \<and> (loader_calls (resolve_maximum_order_price root) =
         (if maximum_order_price (node root) = None \<and> truthy (channel_slug root)
             \<and> \<not> getattr_is_external (node root)
          then [(ShippingMethodChannelListingByShippingMethodIdAndChannelSlugLoader,
                 (node_id (node root), channel_slug root))]
          else [])))
 \<and> ((minimum_order_price (node root) = Some v''
        \<longrightarrow> resolve_minimum_order_price root = Return (Some v''))
   \<and> (minimum_order_price (node root) = None \<and> \<not> truthy (channel_slug root)
        \<longrightarrow> resolve_minimum_order_price root = Return None)
   \<and> (minimum_order_price (node root) = None \<and> truthy (channel_slug root)
        \<and> getattr_is_external (node root)
        \<longrightarrow> resolve_minimum_order_price root = Return None)
   \<and> (loader_calls (resolve_minimum_order_price root) =
         (if minimum_order_price (node root) = None \<and> truthy (channel_slug root)
             \<and> \<not> getattr_is_external (node root)
          then [(ShippingMethodChannelListingByShippingMethodIdAndChannelSlugLoader,
                 (node_id (node root), channel_slug root))]
          else [])))"
  using resolve_price_order [of root v] resolve_maximum_order_price_order [of root v']
    resolve_minimum_order_price_order [of root v'']
  by blast

theorem price_resolvers_check_order_witness:
  "resolve_price \<lparr>node = priced_method, channel_slug = None\<rparr> = Return (Some (10, ''USD''))
   \<and> resolve_maximum_order_price \<lparr>node = priced_method, channel_slug = None\<rparr>
       = Return (Some (90, ''USD''))
   \<and> resolve_minimum_order_price \<lparr>node = priced_method, channel_slug = None\<rparr>
       = Return (Some (20, ''USD''))
   \<and> resolve_price \<lparr>node = external_method, channel_slug = None\<rparr> = Return None
   \<and> resolve_maximum_order_price \<lparr>node = external_method, channel_slug = None\<rparr> = Return None
   \<and> resolve_minimum_order_price \<lparr>node = external_method, channel_slug = None\<rparr> = Return None
   \<and> resolve_price \<lparr>node = external_method, channel_slug = default_slug\<rparr> = Return None
   \<and> resolve_maximum_order_price \<lparr>node = external_method, channel_slug = default_slug\<rparr>
       = Return None
   \<and> resolve_minimum_order_price \<lparr>node = external_method, channel_slug = default_slug\<rparr>
       = Return None
   \<and> loader_calls (resolve_price \<lparr>node = local_method, channel_slug = default_slug\<rparr>)
       = [(ShippingMethodChannelListingByShippingMethodIdAndChannelSlugLoader,
           (IntId 5, default_slug))]
   \<and> loader_calls (resolve_maximum_order_price \<lparr>node = local_method, channel_slug = default_slug\<rparr>)
       = [(ShippingMethodChannelListingByShippingMethodIdAndChannelSlugLoader,
           (IntId 5, default_slug))]
   \<and> loader_calls (resolve_minimum_order_price \<lparr>node = local_method, channel_slug = default_slug\<rparr>)
       = [(ShippingMethodChannelListingByShippingMethodIdAndChannelSlugLoader,
           (IntId 5, default_slug))]"
  using
    price_resolvers_check_order [of "\<lparr>node = priced_method, channel_slug = None\<rparr>"
      "(10, ''USD'')" "(90, ''USD'')" "(20, ''USD'')"]
    price_resolvers_check_order [of "\<lparr>node = external_method, channel_slug = None\<rparr>"]
    price_resolvers_check_order [of "\<lparr>node = external_method, channel_slug = default_slug\<rparr>"]
    price_resolvers_check_order [of "\<lparr>node = local_method, channel_slug = default_slug\<rparr>"]
  by (simp add: truthy_def getattr_is_external_def)

text \<open>
  C5, against the claim as stated: a shipping method that carries a pre-computed price,
  wrapped with no channel qualifier; \<open>resolve_price\<close> returns that price, not an
  absent value.
\<close>

theorem resolve_price_without_channel_counterexample:
  "\<not> truthy (channel_slug \<lparr>node = priced_method, channel_slug = None\<rparr>)
   \<and> resolve_price \<lparr>node = priced_method, channel_slug = None\<rparr> = Return (Some (10, ''USD''))
   \<and> resolve_price \<lparr>node = priced_method, channel_slug = None\<rparr> \<noteq> Return None"
  by (simp add: resolve_price_def truthy_def)

text \<open>
  C5, amended. For every ShippingMethod wrapped with no channel qualifier,
  \<open>resolve_price\<close> invokes no loader and returns what the entity carries as its
  pre-computed price: an absent value when it carries none.
\<close>

theorem resolve_price_without_channel:
  assumes "\<not> truthy (channel_slug root)"
  shows "resolve_price root = Return (price (node root))
         \<and> loader_calls (resolve_price root) = []
         \<and> (price (node root) = None \<longrightarrow> resolve_price root = Return None)"
  using assms by (simp add: resolve_price_def split: option.splits)

theorem resolve_price_without_channel_witness:
  "\<not> truthy (channel_slug \<lparr>node = local_method, channel_slug = Some []\<rparr>)
   \<and> price (node \<lparr>node = local_method, channel_slug = Some []\<rparr>) = None
   \<and> resolve_price \<lparr>node = local_method, channel_slug = Some []\<rparr> = Return None
   \<and> loader_calls (resolve_price \<lparr>node = local_method, channel_slug = Some []\<rparr>) = []"
  using resolve_price_without_channel [of "\<lparr>node = local_method, channel_slug = Some []\<rparr>"]
  by (simp add: truthy_def)

section \<open>Properties of the other shipping-method resolvers\<close>

text \<open>
  C6. For every externally sourced ShippingMethod (\<open>is_external\<close> set),
  \<open>resolve_postal_code_rules\<close> returns an absent value and issues no loader fetch,
  and \<open>resolve_channel_listings\<close> returns an absent value to a caller with the
  manage-shipping capability and the denial to any other caller: in neither case a
  promise of a loader.
\<close>

theorem external_method_no_fetch:
  assumes "getattr_is_external (node root)"
  shows "(resolve_postal_code_rules root :: (ident, 'rule list, 'rule list option) resolved)
           = Return None
         \<and> loader_calls
             (resolve_postal_code_rules root :: (ident, 'rule list, 'rule list option) resolved)
           = []
         \<and> (resolve_channel_listings root info
              :: error + (ident, 'listing list, 'listing list option) resolved)
           = (if has_capability info MANAGE_SHIPPING then Inr (Return None)
              else Inl PermissionDenied)"
  using assms
  by (simp add: resolve_postal_code_rules_def resolve_channel_listings_def
      permission_required_def)

theorem external_method_no_fetch_witness:
  "getattr_is_external (node \<lparr>node = external_method, channel_slug = default_slug\<rparr>)
   \<and> (resolve_postal_code_rules \<lparr>node = external_method, channel_slug = default_slug\<rparr>
        :: (ident, string list, string list option) resolved)
       = Return None
   \<and> (resolve_channel_listings \<lparr>node = external_method, channel_slug = default_slug\<rparr> staff
        :: error + (ident, string list, string list option) resolved)
       = Inr (Return None)
   \<and> (resolve_channel_listings \<lparr>node = external_method, channel_slug = default_slug\<rparr> anonymous
        :: error + (ident, string list, string list option) resolved)
       = Inl PermissionDenied"
  using
    external_method_no_fetch [where ?'rule = string and ?'listing = string,
      of "\<lparr>node = external_method, channel_slug = default_slug\<rparr>" staff]
    external_method_no_fetch [where ?'rule = string and ?'listing = string,
      of "\<lparr>node = external_method, channel_slug = default_slug\<rparr>" anonymous]
  by (simp add: getattr_is_external_def has_capability_def)

text \<open>
  C7. \<open>resolve_id\<close> returns the entity's raw identifier unmodified when the entity is
  externally sourced, and the global-id encoding of the type name \<open>ShippingMethod\<close>
  with the local id when the entity is locally stored.
\<close>

theorem resolve_id_cases:
  "(getattr_is_external (node root)
      \<longrightarrow> (resolve_id to_global_id root :: ('k, 'r, ident) resolved)
            = Return (node_id (node root)))
   \<and> (\<not> getattr_is_external (node root)
      \<longrightarrow> (resolve_id to_global_id root :: ('k, 'r, ident) resolved)
            = Return (StrId (to_global_id ''ShippingMethod'' (node_id (node root)))))"
  by (simp add: resolve_id_def)

theorem resolve_id_cases_witness:
  "(resolve_id plain_global_id \<lparr>node = external_method, channel_slug = default_slug\<rparr>
      :: (unit, unit, ident) resolved)
     = Return (StrId ''app:7:express'')
   \<and> (resolve_id plain_global_id \<lparr>node = local_method, channel_slug = default_slug\<rparr>
      :: (unit, unit, ident) resolved)
     = Return (StrId ''ShippingMethod:5'')"
  using
    resolve_id_cases [where ?'k = unit and ?'r = unit,
      of "\<lparr>node = external_method, channel_slug = default_slug\<rparr>" plain_global_id]
    resolve_id_cases [where ?'k = unit and ?'r = unit,
      of "\<lparr>node = local_method, channel_slug = default_slug\<rparr>" plain_global_id]
  by (simp add: getattr_is_external_def)

text \<open>
  C10. For every caller holding the manage-shipping capability, when the shipping
  method's excluded-products collection is empty or absent,
  \<open>resolve_excluded_products\<close> returns the connection that
  \<open>create_connection_slice\<close> builds over a source with no rows, not an absent value,
  and issues no loader fetch.
\<close>

theorem resolve_excluded_products_empty:
  assumes "has_capability info MANAGE_SHIPPING"
    and "excluded_products (node root) = None \<or> excluded_products (node root) = Some []"
  shows "\<exists>qs. (resolve_excluded_products create_connection_slice root info kwargs
                 :: error + ('k, 'r, 'conn) resolved)
                = Inr (Return (create_connection_slice qs info kwargs))
              \<and> rows_of qs = []"
  using assms
  by (auto simp add: resolve_excluded_products_def permission_required_def)

theorem resolve_excluded_products_empty_witness:
  "has_capability staff MANAGE_SHIPPING
   \<and> excluded_products (node \<lparr>node = external_method, channel_slug = default_slug\<rparr>) = None
   \<and> excluded_products (node \<lparr>node = local_method, channel_slug = default_slug\<rparr>) = Some []
   \<and> (\<exists>qs. (resolve_excluded_products (\<lambda>qs info kwargs. qs)
                \<lparr>node = external_method, channel_slug = default_slug\<rparr> staff ()
               :: error + (unit, unit, nat connection_source) resolved)
             = Inr (Return qs) \<and> rows_of qs = [])
   \<and> (\<exists>qs. (resolve_excluded_products (\<lambda>qs info kwargs. qs)
                \<lparr>node = local_method, channel_slug = default_slug\<rparr> staff ()
               :: error + (unit, unit, nat connection_source) resolved)
             = Inr (Return qs) \<and> rows_of qs = [])"
  using
    resolve_excluded_products_empty [where ?'k = unit and ?'r = unit, of staff
      "\<lparr>node = external_method, channel_slug = default_slug\<rparr>"
      "\<lambda>qs info kwargs. qs" "()"]
    resolve_excluded_products_empty [where ?'k = unit and ?'r = unit, of staff
      "\<lparr>node = local_method, channel_slug = default_slug\<rparr>"
      "\<lambda>qs info kwargs. qs" "()"]
  by (simp add: has_capability_def)

section \<open>Properties of the shipping-zone resolvers\<close>

text \<open>
  C9. For every shipping zone, \<open>resolve_countries\<close> returns a list (never an absent
  value, never a promise of a loader) with exactly one \<open>CountryDisplay\<close> entry per
  country of the zone's country list, in the same order, whose code and name are copied
  from that country.
\<close>

theorem resolve_countries_entries:
  "loader_calls (resolve_countries root :: ('k, 'r, country_display list) resolved) = []
   \<and> (\<exists>entries. (resolve_countries root :: ('k, 'r, country_display list) resolved)
                    = Return entries
        \<and> length entries = length (countries (node root))
        \<and> map display_code entries = map code (countries (node root))
        \<and> map display_country entries = map name (countries (node root)))"
  by (simp add: resolve_countries_def comp_def)

end
